theory Spec2Isabelle
  imports Main
begin

section \<open>Python values\<close>

text \<open>
  A Python \<open>str\<close> is a sequence of Unicode code points, and the labels and replies of the
  bot are Cyrillic, so a string is the list of its code points. \<open>ascii\<close> writes an ASCII
  literal of the source.
\<close>

type_synonym pystr = "nat list"

definition ascii :: "string \<Rightarrow> pystr" where
  "ascii s = map of_char s"

text \<open>
  The exception classes the two modules can meet. \<open>ConnectionError\<close>, \<open>HTTPError\<close> and
  \<open>JSONDecodeError\<close> are the ones of \<open>requests.exceptions\<close>, all three subclasses of
  \<open>RequestException\<close> (the last since requests 2.27, where \<open>Response.json\<close> raises it);
  \<open>SQLAlchemyError\<close> stands for whatever a session operation raises, \<open>IntegrityError\<close>
  for a constraint of models.py that the engine refuses, \<open>OutOfRange\<close> for the ValueError
  or OverflowError of \<open>datetime.utcfromtimestamp\<close>.
\<close>

datatype exn =
    ConnectionError | HTTPError | JSONDecodeError
  | KeyError | IndexError | TypeError | AttributeError | OutOfRange
  | SQLAlchemyError | IntegrityError | DetachedInstanceError

definition is_RequestException :: "exn \<Rightarrow> bool" where
  \<comment> \<open>what \<open>except requests.exceptions.RequestException\<close> catches\<close>
  "is_RequestException e = (e = ConnectionError \<or> e = HTTPError \<or> e = JSONDecodeError)"

fun and_then :: "exn + 'a \<Rightarrow> ('a \<Rightarrow> exn + 'b) \<Rightarrow> exn + 'b" where
  \<comment> \<open>two statements in sequence: the second runs when the first did not raise\<close>
  "and_then (Inl e) f = Inl e"
| "and_then (Inr x) f = f x"

subsection \<open>Decoded JSON\<close>

text \<open>
  What \<open>response.json()\<close> returns. A number is an integer here: a number with a fraction
  or an exponent decodes to a float, which this model leaves out. A dict is the list of
  its items, no key twice, looked up by key.
\<close>

datatype json =
    JNull | JBool bool | JInt int | JStr pystr | JList "json list" | JDict "(pystr \<times> json) list"

fun truthy :: "json \<Rightarrow> bool" where
  \<comment> \<open>the truth value Python gives the object, as \<open>not x\<close> reads it\<close>
  "truthy JNull = False"
| "truthy (JBool b) = b"
| "truthy (JInt n) = (n \<noteq> 0)"
| "truthy (JStr s) = (s \<noteq> [])"
| "truthy (JList xs) = (xs \<noteq> [])"
| "truthy (JDict kvs) = (kvs \<noteq> [])"

fun getitem :: "json \<Rightarrow> pystr \<Rightarrow> exn + json" where
  \<comment> \<open>\<open>x[key]\<close> for a string key\<close>
  "getitem (JDict kvs) k = (case map_of kvs k of None \<Rightarrow> Inl KeyError | Some v \<Rightarrow> Inr v)"
| "getitem _ k = Inl TypeError"

fun getitem0 :: "json \<Rightarrow> exn + json" where
  \<comment> \<open>\<open>x[0]\<close>: a list and a str are indexed, a dict has no key 0 (its keys are strings)\<close>
  "getitem0 (JList []) = Inl IndexError"
| "getitem0 (JList (v # vs)) = Inr v"
| "getitem0 (JStr []) = Inl IndexError"
| "getitem0 (JStr (c # cs)) = Inr (JStr [c])"
| "getitem0 (JDict kvs) = Inl KeyError"
| "getitem0 _ = Inl TypeError"

definition isspace :: "nat \<Rightarrow> bool" where
  \<comment> \<open>the code points \<open>str.isspace\<close> accepts, which \<open>str.strip()\<close> removes\<close>
  "isspace c = (c \<in> {9, 10, 11, 12, 13, 28, 29, 30, 31, 32, 133, 160, 5760,
                      8192, 8193, 8194, 8195, 8196, 8197, 8198, 8199, 8200, 8201, 8202,
                      8232, 8233, 8239, 8287, 12288})"

definition strip :: "pystr \<Rightarrow> pystr" where
  "strip s = rev (dropWhile isspace (rev (dropWhile isspace s)))"

fun strip_method :: "json \<Rightarrow> exn + pystr" where
  \<comment> \<open>\<open>x.strip()\<close>: only a str has the method\<close>
  "strip_method (JStr s) = Inr (strip s)"
| "strip_method _ = Inl AttributeError"

fun join :: "pystr \<Rightarrow> pystr list \<Rightarrow> pystr" where
  \<comment> \<open>\<open>sep.join(xs)\<close>\<close>
  "join sep [] = []"
| "join sep [x] = x"
| "join sep (x # y # ys) = x @ sep @ join sep (y # ys)"

fun split1 :: "nat \<Rightarrow> pystr \<Rightarrow> pystr list" where
  \<comment> \<open>\<open>s.split(sep, 1)\<close> for a separator of one character: cut at its first occurrence\<close>
  "split1 sep s =
     (if sep \<in> set s then [takeWhile (\<lambda>c. c \<noteq> sep) s, tl (dropWhile (\<lambda>c. c \<noteq> sep) s)]
      else [s])"

definition getindex1 :: "'a list \<Rightarrow> exn + 'a" where
  \<comment> \<open>\<open>xs[1]\<close>\<close>
  "getindex1 xs = (case xs of x # y # ys \<Rightarrow> Inr y | _ \<Rightarrow> Inl IndexError)"

definition startswith :: "pystr \<Rightarrow> pystr \<Rightarrow> bool" where
  "startswith p s = (take (length p) s = p)"

section \<open>The string literals of bot.py\<close>

definition msg_welcome :: pystr where
  \<comment> \<open>start, the welcome text (bot.py lines 191-192); 74 code points\<close>
  "msg_welcome =
     [1044, 1086, 1073, 1088, 1086, 32, 1087, 1086, 1078, 1072, 1083, 1086, 1074, 1072,
      1090, 1100, 32, 1082, 32, 71, 105, 103, 97, 77, 111, 118, 105, 101, 33, 10, 1053,
      1072, 1073, 1077, 1088, 1080, 1090, 1077, 32, 47, 104, 101, 108, 112, 44, 32,
      1095, 1090, 1086, 1073, 1099, 32, 1091, 1074, 1080, 1076, 1077, 1090, 1100, 32,
      1089, 1087, 1080, 1089, 1086, 1082, 32, 1082, 1086, 1084, 1072, 1085, 1076, 46]"

definition msg_registration_error :: pystr where
  \<comment> \<open>start, the user could not be created (line 198); 36 code points\<close>
  "msg_registration_error =
     [1054, 1096, 1080, 1073, 1082, 1072, 32, 1087, 1088, 1080, 32, 1088, 1077, 1075,
      1080, 1089, 1090, 1088, 1072, 1094, 1080, 1080, 32, 1087, 1086, 1083, 1100, 1079,
      1086, 1074, 1072, 1090, 1077, 1083, 1103, 46]"

definition help_text :: pystr where
  \<comment> \<open>help_command (lines 206-213); 209 code points\<close>
  "help_text =
     [1044, 1086, 1089, 1090, 1091, 1087, 1085, 1099, 1077, 32, 1082, 1086, 1084, 1072,
      1085, 1076, 1099, 58, 10, 47, 115, 116, 97, 114, 116, 32, 45, 32, 1053, 1072,
      1095, 1072, 1090, 1100, 32, 1088, 1072, 1073, 1086, 1090, 1091, 10, 47, 104, 101,
      108, 112, 32, 45, 32, 1055, 1086, 1082, 1072, 1079, 1072, 1090, 1100, 32, 1101,
      1090, 1086, 32, 1089, 1086, 1086, 1073, 1097, 1077, 1085, 1080, 1077, 10, 47, 115,
      101, 116, 103, 101, 110, 114, 101, 115, 32, 45, 32, 1042, 1099, 1073, 1088, 1072,
      1090, 1100, 47, 1087, 1077, 1088, 1077, 1091, 1089, 1090, 1072, 1085, 1086, 1074,
      1080, 1090, 1100, 32, 1083, 1102, 1073, 1080, 1084, 1099, 1077, 32, 1078, 1072,
      1085, 1088, 1099, 10, 47, 103, 101, 116, 103, 101, 110, 114, 101, 115, 32, 45, 32,
      1055, 1086, 1082, 1072, 1079, 1072, 1090, 1100, 32, 1074, 1099, 1073, 1088, 1072,
      1085, 1085, 1099, 1077, 32, 1078, 1072, 1085, 1088, 1099, 10, 47, 103, 101, 116,
      102, 105, 108, 109, 32, 45, 32, 1055, 1086, 1083, 1091, 1095, 1080, 1090, 1100,
      32, 1088, 1077, 1082, 1086, 1084, 1077, 1085, 1076, 1072, 1094, 1080, 1102, 32,
      1095, 1077, 1088, 1077, 1079, 32, 71, 105, 103, 97, 67, 104, 97, 116, 10]"

definition msg_user_not_found :: pystr where
  \<comment> \<open>the reply of every handler whose user is None (lines 230, 267, 300, 328); 31 code points\<close>
  "msg_user_not_found =
     [1054, 1096, 1080, 1073, 1082, 1072, 58, 32, 1087, 1086, 1083, 1100, 1079, 1086,
      1074, 1072, 1090, 1077, 1083, 1100, 32, 1085, 1077, 32, 1085, 1072, 1081, 1076,
      1077, 1085, 46]"

definition msg_choose_genres :: pystr where
  \<comment> \<open>set_genres_command, the text above the inline keyboard (line 252); 51 code points\<close>
  "msg_choose_genres =
     [1042, 1099, 1073, 1077, 1088, 1080, 1090, 1077, 32, 1078, 1072, 1085, 1088, 1099,
      32, 1079, 1072, 1085, 1086, 1074, 1086, 32, 40, 1084, 1086, 1078, 1085, 1086, 32,
      1085, 1072, 1078, 1072, 1090, 1100, 32, 1085, 1077, 1089, 1082, 1086, 1083, 1100,
      1082, 1086, 32, 1088, 1072, 1079, 41, 46]"

definition genre_word :: pystr where
  \<comment> \<open>the first five characters of both acknowledgements of genre_callback, the last a space (lines 279, 285); 5 code points\<close>
  "genre_word =
     [1046, 1072, 1085, 1088, 32]"

definition already_added_suffix :: pystr where
  \<comment> \<open>what follows the label when the row exists (line 279); 24 code points\<close>
  "already_added_suffix =
     [32, 1091, 1078, 1077, 32, 1073, 1099, 1083, 32, 1076, 1086, 1073, 1072, 1074,
      1083, 1077, 1085, 32, 1088, 1072, 1085, 1077, 1077, 46]"

definition added_suffix :: pystr where
  \<comment> \<open>what follows the label when the row was inserted (line 285); 10 code points\<close>
  "added_suffix =
     [32, 1076, 1086, 1073, 1072, 1074, 1083, 1077, 1085, 33]"

definition msg_genre_add_error :: pystr where
  \<comment> \<open>genre_callback, the except branch (line 288); 38 code points\<close>
  "msg_genre_add_error =
     [1055, 1088, 1086, 1080, 1079, 1086, 1096, 1083, 1072, 32, 1086, 1096, 1080, 1073,
      1082, 1072, 32, 1087, 1088, 1080, 32, 1076, 1086, 1073, 1072, 1074, 1083, 1077,
      1085, 1080, 1080, 32, 1078, 1072, 1085, 1088, 1072, 46]"

definition genres_header :: pystr where
  \<comment> \<open>get_genres, the heading and its newline (line 310); 17 code points\<close>
  "genres_header =
     [1042, 1099, 1073, 1088, 1072, 1085, 1085, 1099, 1077, 32, 1078, 1072, 1085, 1088,
      1099, 58, 10]"

definition msg_no_genres :: pystr where
  \<comment> \<open>get_genres, nothing stored (line 312); 32 code points\<close>
  "msg_no_genres =
     [1059, 32, 1074, 1072, 1089, 32, 1087, 1086, 1082, 1072, 32, 1085, 1077, 1090, 32,
      1074, 1099, 1073, 1088, 1072, 1085, 1085, 1099, 1093, 32, 1078, 1072, 1085, 1088,
      1086, 1074, 46]"

definition msg_genres_error :: pystr where
  \<comment> \<open>get_genres, the except branch (line 315); 38 code points\<close>
  "msg_genres_error =
     [1055, 1088, 1086, 1080, 1079, 1086, 1096, 1083, 1072, 32, 1086, 1096, 1080, 1073,
      1082, 1072, 32, 1087, 1088, 1080, 32, 1087, 1086, 1083, 1091, 1095, 1077, 1085,
      1080, 1080, 32, 1078, 1072, 1085, 1088, 1086, 1074, 46]"

definition no_genres_str :: pystr where
  \<comment> \<open>get_film, what the prompt says when nothing is stored (line 339); 21 code points\<close>
  "no_genres_str =
     [1085, 1077, 1090, 32, 40, 1087, 1086, 1082, 1072, 32, 1085, 1077, 32, 1074, 1099,
      1073, 1088, 1072, 1085, 1086, 41]"

definition prompt_head :: pystr where
  \<comment> \<open>get_film, the prompt before the genres (line 343); 37 code points\<close>
  "prompt_head =
     [1055, 1086, 1083, 1100, 1079, 1086, 1074, 1072, 1090, 1077, 1083, 1100, 32, 1074,
      1099, 1073, 1088, 1072, 1083, 32, 1089, 1083, 1077, 1076, 1091, 1102, 1097, 1080,
      1077, 32, 1078, 1072, 1085, 1088, 1099, 58, 10]"

definition prompt_tail :: pystr where
  \<comment> \<open>get_film, the prompt after the genres (lines 344-346); 130 code points\<close>
  "prompt_tail =
     [10, 10, 1055, 1086, 1078, 1072, 1083, 1091, 1081, 1089, 1090, 1072, 44, 32, 1087,
      1088, 1077, 1076, 1083, 1086, 1078, 1080, 32, 1080, 1085, 1090, 1077, 1088, 1077,
      1089, 1085, 1099, 1081, 32, 1092, 1080, 1083, 1100, 1084, 32, 1074, 32, 1089,
      1086, 1086, 1090, 1074, 1077, 1090, 1089, 1090, 1074, 1080, 1080, 32, 1089, 32,
      1101, 1090, 1080, 1084, 1080, 32, 1078, 1072, 1085, 1088, 1072, 1084, 1080, 44,
      32, 1080, 1083, 1080, 32, 1087, 1086, 1088, 1077, 1082, 1086, 1084, 1077, 1085,
      1076, 1091, 1081, 32, 1083, 1102, 1073, 1086, 1081, 32, 1089, 1083, 1091, 1095,
      1072, 1081, 1085, 1099, 1081, 32, 1074, 1072, 1088, 1080, 1072, 1085, 1090, 44,
      32, 1077, 1089, 1083, 1080, 32, 1078, 1072, 1085, 1088, 1086, 1074, 32, 1085,
      1077, 1090, 46]"

definition msg_film_error :: pystr where
  \<comment> \<open>get_film, the except branch (line 354); 44 code points\<close>
  "msg_film_error =
     [1055, 1088, 1086, 1080, 1079, 1086, 1096, 1083, 1072, 32, 1086, 1096, 1080, 1073,
      1082, 1072, 32, 1087, 1088, 1080, 32, 1087, 1086, 1083, 1091, 1095, 1077, 1085,
      1080, 1080, 32, 1088, 1077, 1082, 1086, 1084, 1077, 1085, 1076, 1072, 1094, 1080,
      1080, 46]"

definition msg_not_understood :: pystr where
  \<comment> \<open>handle_text (line 363); 76 code points\<close>
  "msg_not_understood =
     [1048, 1079, 1074, 1080, 1085, 1080, 1090, 1077, 44, 32, 1103, 32, 1085, 1077, 32,
      1087, 1086, 1085, 1103, 1083, 32, 1089, 1086, 1086, 1073, 1097, 1077, 1085, 1080,
      1077, 46, 32, 1053, 1072, 1073, 1077, 1088, 1080, 1090, 1077, 32, 47, 104, 101,
      108, 112, 44, 32, 1095, 1090, 1086, 1073, 1099, 32, 1091, 1074, 1080, 1076, 1077,
      1090, 1100, 32, 1089, 1087, 1080, 1089, 1086, 1082, 32, 1082, 1086, 1084, 1072,
      1085, 1076, 46]"

definition fallback_text :: pystr where
  \<comment> \<open>generate_recipe, the except branch (line 132); 58 code points\<close>
  "fallback_text =
     [1048, 1079, 1074, 1080, 1085, 1080, 1090, 1077, 44, 32, 1103, 32, 1085, 1077, 32,
      1089, 1084, 1086, 1075, 32, 1086, 1073, 1088, 1072, 1073, 1086, 1090, 1072, 1090,
      1100, 32, 1074, 1072, 1096, 32, 1079, 1072, 1087, 1088, 1086, 1089, 32, 1074, 32,
      1076, 1072, 1085, 1085, 1099, 1081, 32, 1084, 1086, 1084, 1077, 1085, 1090, 46]"

definition system_content :: pystr where
  \<comment> \<open>generate_recipe, the system message (line 116); 25 code points\<close>
  "system_content =
     [1058, 1099, 32, 8212, 32, 1087, 1086, 1084, 1086, 1097, 1085, 1080, 1082, 32,
      1087, 1086, 32, 1092, 1080, 1083, 1100, 1084, 1072, 1084, 46]"

definition AVAILABLE_GENRES :: "pystr list" where
  \<comment> \<open>the ten labels of lines 218-221, in the order of the source\<close>
  "AVAILABLE_GENRES =
    [[1044, 1088, 1072, 1084, 1072],
     [1050, 1086, 1084, 1077, 1076, 1080, 1103],
     [1041, 1086, 1077, 1074, 1080, 1082],
     [1058, 1088, 1080, 1083, 1083, 1077, 1088],
     [1059, 1078, 1072, 1089, 1099],
     [1060, 1072, 1085, 1090, 1072, 1089, 1090, 1080, 1082, 1072],
     [1060, 1101, 1085, 1090, 1077, 1079, 1080],
     [1056, 1086, 1084, 1072, 1085, 1090, 1080, 1082, 1072],
     [1044, 1086, 1082, 1091, 1084, 1077, 1085, 1090, 1072, 1083, 1100, 1085, 1086, 1077, 32,
      1082, 1080, 1085, 1086],
     [1052, 1091, 1083, 1100, 1090, 1092, 1080, 1083, 1100, 1084, 1099, 47, 1040, 1085, 1080,
      1084, 1072, 1094, 1080, 1103]]"

section \<open>The tables of models.py\<close>

text \<open>
  A row of \<open>users\<close> and a row of \<open>genres\<close>, with the columns the bot reads and writes
  (the timestamps are assigned by the server and read nowhere). A table is the list of its
  rows in the order they were inserted, which is the order in which SQLite scans it.
\<close>

record User =
  id_user :: nat
  telegram_id :: int
  username :: "pystr option"

record Genre =
  id_genre :: nat
  genre_name :: pystr
  user_id :: nat

record database =
  users :: "User list"
  genres :: "Genre list"

definition init_db :: database where
  \<comment> \<open>the two tables, created empty\<close>
  "init_db = \<lparr>users = [], genres = []\<rparr>"

definition next_id :: "nat list \<Rightarrow> nat" where
  \<comment> \<open>an integer primary key without a value: one more than the largest in the table\<close>
  "next_id ids = Suc (fold max ids 0)"

subsection \<open>A session\<close>

text \<open>
  Every operation of a session may raise. Which ones do, in one session, is an input of
  the model; \<open>no_faults\<close> is the session in which none does.
\<close>

record faults =
  query_raises :: bool
  add_raises :: bool
  commit_raises :: bool
  delete_raises :: bool

definition no_faults :: faults where
  "no_faults = \<lparr>query_raises = False, add_raises = False, commit_raises = False,
                 delete_raises = False\<rparr>"

definition query_first :: "faults \<Rightarrow> ('r \<Rightarrow> bool) \<Rightarrow> 'r list \<Rightarrow> exn + 'r option" where
  \<comment> \<open>\<open>db.query(T).filter(p).first()\<close>\<close>
  "query_first f p rows = (if query_raises f then Inl SQLAlchemyError else Inr (find p rows))"

definition query_all :: "faults \<Rightarrow> ('r \<Rightarrow> bool) \<Rightarrow> 'r list \<Rightarrow> exn + 'r list" where
  \<comment> \<open>\<open>db.query(T).filter(p).all()\<close>\<close>
  "query_all f p rows = (if query_raises f then Inl SQLAlchemyError else Inr (filter p rows))"

definition add_commit_user ::
  "faults \<Rightarrow> database \<Rightarrow> int \<Rightarrow> pystr option \<Rightarrow> exn + database \<times> User" where
  \<comment> \<open>\<open>db.add(User(telegram_id=tgid, username=username)); db.commit()\<close>; the column
      \<open>telegram_id\<close> is declared unique\<close>
  "add_commit_user f d tgid uname =
     (if add_raises f \<or> commit_raises f then Inl SQLAlchemyError
      else if tgid \<in> set (map telegram_id (users d)) then Inl IntegrityError
      else
        (let row = \<lparr>id_user = next_id (map id_user (users d)), telegram_id = tgid,
                     username = uname\<rparr>
         in Inr (d\<lparr>users := users d @ [row]\<rparr>, row)))"

definition add_commit_genre ::
  "faults \<Rightarrow> database \<Rightarrow> nat option \<Rightarrow> pystr \<Rightarrow> exn + database" where
  \<comment> \<open>\<open>db.add(Genre(user_id=uid, genre_name=name)); db.commit()\<close>; the column
      \<open>user_id\<close> is declared not null\<close>
  "add_commit_genre f d uid name =
     (if add_raises f \<or> commit_raises f then Inl SQLAlchemyError
      else
        (case uid of
           None \<Rightarrow> Inl IntegrityError
         | Some u \<Rightarrow>
             Inr (d\<lparr>genres := genres d @
                    [\<lparr>id_genre = next_id (map id_genre (genres d)), genre_name = name,
                      user_id = u\<rparr>]\<rparr>)))"

definition delete_commit_genres :: "faults \<Rightarrow> database \<Rightarrow> nat option \<Rightarrow> exn + database" where
  \<comment> \<open>\<open>db.query(Genre).filter(Genre.user_id == uid).delete(); db.commit()\<close>\<close>
  "delete_commit_genres f d uid =
     (if delete_raises f \<or> commit_raises f then Inl SQLAlchemyError
      else Inr (d\<lparr>genres := filter (\<lambda>g. Some (user_id g) \<noteq> uid) (genres d)\<rparr>))"

subsection \<open>The object a caller holds after the session is closed\<close>

text \<open>
  \<open>get_or_create_user\<close> closes its session before it returns, so the caller holds a
  detached instance. One that a query loaded keeps its columns. One that was added and
  committed lost them at the commit (\<open>SessionLocal\<close>, models.py line 55, leaves
  \<open>expire_on_commit\<close> at its default), and reading a column of it after the close raises.
  One whose add or commit raised was never inserted and has no id.
\<close>

datatype user_obj =
    Loaded User
  | Expired User
  | Unsaved int "pystr option"

fun user_dot_id :: "user_obj \<Rightarrow> exn + nat option" where
  \<comment> \<open>\<open>user.id\<close>, as the handlers read it\<close>
  "user_dot_id (Loaded r) = Inr (Some (id_user r))"
| "user_dot_id (Expired r) = Inl DetachedInstanceError"
| "user_dot_id (Unsaved tgid uname) = Inr None"

fun row_of :: "user_obj \<Rightarrow> User option" where
  \<comment> \<open>the row of \<open>users\<close> the object stands for, when there is one\<close>
  "row_of (Loaded r) = Some r"
| "row_of (Expired r) = Some r"
| "row_of (Unsaved tgid uname) = None"

section \<open>Updates and replies\<close>

record TgUser =
  tg_id :: int
  tg_username :: "pystr option"

datatype incoming =
    Command pystr
  | Text pystr
  | CallbackQuery pystr

record Update =
  effective_user :: "TgUser option"
  incoming :: incoming

datatype markup =
    ReplyKeyboardMarkup "pystr list list"
  | ReplyKeyboardRemove
  | InlineKeyboardMarkup "(pystr \<times> pystr) list list"

datatype outgoing =
    answer
  | reply_text pystr "markup option"
  | reply_markdown pystr
  | edit_message_text pystr

definition get_main_menu :: markup where
  "get_main_menu =
     ReplyKeyboardMarkup
       [[ascii ''/setgenres'', ascii ''/getgenres''], [ascii ''/getfilm''], [ascii ''/help'']]"

section \<open>get_or_create_user\<close>

definition get_or_create_user :: "database \<Rightarrow> faults \<Rightarrow> Update \<Rightarrow> database \<times> user_obj option" where
  \<comment> \<open>bot.py lines 157-178. \<open>user\<close> starts as None; every exception of the try block is
      caught and logged, and \<open>user\<close> is returned as it stands then.\<close>
  "get_or_create_user d f u =
     (case effective_user u of
        None \<Rightarrow> (d, None)
      | Some eu \<Rightarrow>
          (case query_first f (\<lambda>r. telegram_id r = tg_id eu) (users d) of
             Inl e \<Rightarrow> (d, None)
           | Inr (Some r) \<Rightarrow> (d, Some (Loaded r))
           | Inr None \<Rightarrow>
               (case add_commit_user f d (tg_id eu) (tg_username eu) of
                  Inl e \<Rightarrow> (d, Some (Unsaved (tg_id eu) (tg_username eu)))
                | Inr (d', r) \<Rightarrow> (d', Some (Expired r)))))"


section \<open>GigaChatAPI\<close>

text \<open>
  The two endpoints are outside the program: what a call to one of them does is an input of
  the model. \<open>requests.post\<close> raises (no connection, a timeout), or the answer has a status
  on which \<open>raise_for_status\<close> raises (the source, line 89: "if the answer is not 2xx, we
  throw an error"), or its body is not JSON, or it decodes to a value.
\<close>

datatype http_outcome =
    post_raises
  | raise_for_status_raises
  | json_raises
  | json_returns json

fun response_json :: "http_outcome \<Rightarrow> exn + json" where
  \<comment> \<open>\<open>response = requests.post(...); response.raise_for_status(); response.json()\<close>\<close>
  "response_json post_raises = Inl ConnectionError"
| "response_json raise_for_status_raises = Inl HTTPError"
| "response_json json_raises = Inl JSONDecodeError"
| "response_json (json_returns v) = Inr v"

text \<open>
  The requests a call sent, in order: the observable trace of the client. The random ids
  of the headers are left out.
\<close>

datatype http_call =
    oauth_post "pystr option"
  | completions_post json pystr

text \<open>
  An instant is a number of microseconds since the epoch, the resolution of \<open>datetime\<close>.
  \<open>access_token\<close> holds whatever the token endpoint sent under that key (None is
  \<open>JNull\<close>).
\<close>

record GigaChatAPI =
  authorization_key :: "pystr option"
  access_token :: json
  token_expiry :: int

definition GigaChatAPI_init :: "pystr option \<Rightarrow> int \<Rightarrow> GigaChatAPI" where
  \<comment> \<open>\<open>__init__\<close>, run at the instant \<open>now\<close>\<close>
  "GigaChatAPI_init key now =
     \<lparr>authorization_key = key, access_token = JNull, token_expiry = now\<rparr>"

fun utcfromtimestamp_ms :: "json \<Rightarrow> exn + int" where
  \<comment> \<open>\<open>datetime.utcfromtimestamp(x / 1000)\<close>: a bool divides as the integer it is, the
      years of a datetime are 1 to 9999, and the division is taken as exact\<close>
  "utcfromtimestamp_ms (JInt n) =
     (if - 62135596800000 \<le> n \<and> n < 253402300800000 then Inr (n * 1000) else Inl OutOfRange)"
| "utcfromtimestamp_ms (JBool b) = Inr (if b then 1000 else 0)"
| "utcfromtimestamp_ms _ = Inl TypeError"

definition request_access_token ::
  "GigaChatAPI \<Rightarrow> http_outcome \<Rightarrow> (exn + unit) \<times> GigaChatAPI \<times> http_call list" where
  \<comment> \<open>lines 73-97. The except clause logs a RequestException and raises it again, so
      every exception of the try block leaves the method; the two assignments are two
      statements, and the first has happened when the second raises.\<close>
  "request_access_token g out =
     (let calls = [oauth_post (authorization_key g)] in
      case response_json out of
        Inl e \<Rightarrow> (Inl e, g, calls)
      | Inr token_info \<Rightarrow>
          (case getitem token_info (ascii ''access_token'') of
             Inl e \<Rightarrow> (Inl e, g, calls)
           | Inr tok \<Rightarrow>
               (let g1 = g\<lparr>access_token := tok\<rparr> in
                case and_then (getitem token_info (ascii ''expires_at'')) utcfromtimestamp_ms of
                  Inl e \<Rightarrow> (Inl e, g1, calls)
                | Inr t \<Rightarrow> (Inr (), g1\<lparr>token_expiry := t\<rparr>, calls))))"

definition get_access_token ::
  "GigaChatAPI \<Rightarrow> int \<Rightarrow> http_outcome \<Rightarrow> (exn + json) \<times> GigaChatAPI \<times> http_call list" where
  \<comment> \<open>lines 63-71, with \<open>now\<close> what \<open>datetime.utcnow()\<close> returns\<close>
  "get_access_token g now token_endpoint =
     (if \<not> truthy (access_token g) \<or> now \<ge> token_expiry g then
        (case request_access_token g token_endpoint of
           (Inl e, g', calls) \<Rightarrow> (Inl e, g', calls)
         | (Inr _, g', calls) \<Rightarrow> (Inr (access_token g'), g', calls))
      else (Inr (access_token g), g, []))"

definition first_choice_content :: "json \<Rightarrow> exn + json" where
  \<comment> \<open>\<open>response_data["choices"][0]["message"]["content"]\<close>\<close>
  "first_choice_content response_data =
     and_then (and_then (and_then (getitem response_data (ascii ''choices'')) getitem0)
                 (\<lambda>c. getitem c (ascii ''message'')))
       (\<lambda>m. getitem m (ascii ''content''))"

definition generate_recipe ::
  "GigaChatAPI \<Rightarrow> int \<Rightarrow> http_outcome \<Rightarrow> http_outcome \<Rightarrow> pystr \<Rightarrow>
     (exn + pystr) \<times> GigaChatAPI \<times> http_call list" where
  \<comment> \<open>lines 99-132. The token is fetched while the headers are built, before the try
      block; the except clause of the try block catches a RequestException only.\<close>
  "generate_recipe g now token_endpoint completion_endpoint user_message =
     (case get_access_token g now token_endpoint of
        (Inl e, g', calls) \<Rightarrow> (Inl e, g', calls)
      | (Inr tok, g', calls) \<Rightarrow>
          (case and_then (and_then (response_json completion_endpoint) first_choice_content)
                  strip_method of
             Inl e \<Rightarrow>
               (if is_RequestException e then Inr fallback_text else Inl e,
                g', calls @ [completions_post tok user_message])
           | Inr s \<Rightarrow> (Inr s, g', calls @ [completions_post tok user_message])))"


section \<open>The handlers\<close>

text \<open>
  A handler takes the database, the session of \<open>get_or_create_user\<close>, its own session and
  the update, and returns the database, what it sent to the chat, and the exception that
  left it, if any. Sending to the chat is taken to succeed.
\<close>

type_synonym handled = "database \<times> outgoing list \<times> exn option"

definition start :: "database \<Rightarrow> faults \<Rightarrow> Update \<Rightarrow> handled" where
  \<comment> \<open>lines 184-200\<close>
  "start d fu u =
     (case get_or_create_user d fu u of
        (d', Some user) \<Rightarrow> (d', [reply_text msg_welcome (Some get_main_menu)], None)
      | (d', None) \<Rightarrow>
          (d', [reply_text msg_registration_error (Some ReplyKeyboardRemove)], None))"

definition help_command :: "database \<Rightarrow> Update \<Rightarrow> handled" where
  \<comment> \<open>lines 202-214\<close>
  "help_command d u = (d, [reply_text help_text (Some get_main_menu)], None)"

definition genre_keyboard :: markup where
  \<comment> \<open>lines 245-250: one row of one button per label, its callback data \<open>genre_\<close> and
      the label\<close>
  "genre_keyboard =
     InlineKeyboardMarkup (map (\<lambda>g. [(g, ascii ''genre_'' @ g)]) AVAILABLE_GENRES)"

definition set_genres_command :: "database \<Rightarrow> faults \<Rightarrow> faults \<Rightarrow> Update \<Rightarrow> handled" where
  \<comment> \<open>lines 223-254. An exception of the delete is logged; the keyboard is sent either
      way.\<close>
  "set_genres_command d fu fh u =
     (case get_or_create_user d fu u of
        (d', None) \<Rightarrow> (d', [reply_text msg_user_not_found None], None)
      | (d', Some user) \<Rightarrow>
          (case and_then (user_dot_id user) (delete_commit_genres fh d') of
             Inl e \<Rightarrow> (d', [reply_text msg_choose_genres (Some genre_keyboard)], None)
           | Inr d'' \<Rightarrow> (d'', [reply_text msg_choose_genres (Some genre_keyboard)], None)))"

definition genre_callback :: "database \<Rightarrow> faults \<Rightarrow> faults \<Rightarrow> Update \<Rightarrow> handled" where
  \<comment> \<open>lines 256-290. \<open>data.split("_", 1)[1]\<close> stands before the try block; inside it,
      every exception is answered with the error text.\<close>
  "genre_callback d fu fh u =
     (case incoming u of
        CallbackQuery data \<Rightarrow>
          (case getindex1 (split1 95 data) of
             Inl e \<Rightarrow> (d, [answer], Some e)
           | Inr chosen_genre \<Rightarrow>
               (case get_or_create_user d fu u of
                  (d', None) \<Rightarrow> (d', [answer, edit_message_text msg_user_not_found], None)
                | (d', Some user) \<Rightarrow>
                    (case and_then (user_dot_id user) (\<lambda>uid.
                            and_then
                              (query_first fh
                                 (\<lambda>g. Some (user_id g) = uid \<and> genre_name g = chosen_genre)
                                 (genres d'))
                              (\<lambda>existing.
                                 case existing of
                                   Some g \<Rightarrow> Inr (d', genre_word @ chosen_genre @ already_added_suffix)
                                 | None \<Rightarrow>
                                     and_then (add_commit_genre fh d' uid chosen_genre)
                                       (\<lambda>d''. Inr (d'', genre_word @ chosen_genre @ added_suffix)))) of
                       Inl e \<Rightarrow> (d', [answer, edit_message_text msg_genre_add_error], None)
                     | Inr (d'', msg) \<Rightarrow> (d'', [answer, edit_message_text msg], None))))
      | _ \<Rightarrow> (d, [], Some AttributeError))"

definition get_genres :: "database \<Rightarrow> faults \<Rightarrow> faults \<Rightarrow> Update \<Rightarrow> handled" where
  \<comment> \<open>lines 294-317\<close>
  "get_genres d fu fh u =
     (case get_or_create_user d fu u of
        (d', None) \<Rightarrow> (d', [reply_text msg_user_not_found None], None)
      | (d', Some user) \<Rightarrow>
          (case and_then (user_dot_id user) (\<lambda>uid.
                  query_all fh (\<lambda>g. Some (user_id g) = uid) (genres d')) of
             Inl e \<Rightarrow> (d', [reply_text msg_genres_error None], None)
           | Inr user_genres \<Rightarrow>
               (if user_genres \<noteq> [] then
                  (d', [reply_text
                          (genres_header @
                           join [10] (map (\<lambda>g. ascii ''- '' @ genre_name g) user_genres))
                          None], None)
                else (d', [reply_text msg_no_genres None], None))))"

definition film_prompt :: "Genre list \<Rightarrow> pystr" where
  \<comment> \<open>lines 336-347\<close>
  "film_prompt user_genres =
     prompt_head @
     (if user_genres \<noteq> [] then join (ascii '', '') (map genre_name user_genres)
      else no_genres_str) @
     prompt_tail"

definition handle_text :: "database \<Rightarrow> Update \<Rightarrow> handled" where
  \<comment> \<open>lines 358-364\<close>
  "handle_text d u = (d, [reply_text msg_not_understood None], None)"


definition get_film ::
  "database \<Rightarrow> GigaChatAPI \<Rightarrow> faults \<Rightarrow> faults \<Rightarrow> int \<Rightarrow> http_outcome \<Rightarrow> http_outcome \<Rightarrow>
     Update \<Rightarrow> handled \<times> GigaChatAPI \<times> http_call list" where
  \<comment> \<open>lines 321-354: everything after the user is known is inside one try block, whose
      except clause answers every exception with the error text\<close>
  "get_film d g fu fh now token_endpoint completion_endpoint u =
     (case get_or_create_user d fu u of
        (d', None) \<Rightarrow> ((d', [reply_text msg_user_not_found None], None), g, [])
      | (d', Some user) \<Rightarrow>
          (case and_then (user_dot_id user) (\<lambda>uid.
                  query_all fh (\<lambda>r. Some (user_id r) = uid) (genres d')) of
             Inl e \<Rightarrow> ((d', [reply_text msg_film_error None], None), g, [])
           | Inr user_genres \<Rightarrow>
               (case generate_recipe g now token_endpoint completion_endpoint
                       (film_prompt user_genres) of
                  (Inl e, g', calls) \<Rightarrow> ((d', [reply_text msg_film_error None], None), g', calls)
                | (Inr film_suggestion, g', calls) \<Rightarrow>
                    ((d', [reply_markdown film_suggestion], None), g', calls))))"

section \<open>main: the dispatch of an update\<close>

text \<open>
  The state of the process is the database and the one \<open>GigaChatAPI\<close> object of the
  module. What the world does during one update (which session operations raise, the
  clock, the two endpoints) comes with the update.
\<close>

record bot =
  db :: database
  giga_chat_api :: GigaChatAPI

record world =
  user_session :: faults
  handler_session :: faults
  utcnow :: int
  oauth :: http_outcome
  completions :: http_outcome

definition calm :: world where
  \<comment> \<open>no session operation raises; the endpoints are not reached by the handlers that
      only use the database\<close>
  "calm = \<lparr>user_session = no_faults, handler_session = no_faults, utcnow = 0,
            oauth = post_raises, completions = post_raises\<rparr>"

definition on_db :: "bot \<Rightarrow> handled \<Rightarrow> bot \<times> outgoing list \<times> exn option \<times> http_call list" where
  "on_db b h = (case h of (d, out, e) \<Rightarrow> (b\<lparr>db := d\<rparr>, out, e, []))"

definition dispatch ::
  "bot \<Rightarrow> world \<Rightarrow> Update \<Rightarrow> bot \<times> outgoing list \<times> exn option \<times> http_call list" where
  \<comment> \<open>the handlers registered at lines 377-389, tried in that order; a callback query
      reaches \<open>genre_callback\<close> when its data matches \<open>^genre_\<close>, a text that is no command
      reaches \<open>handle_text\<close>, and an update no handler accepts is dropped\<close>
  "dispatch b w u =
     (case incoming u of
        Command c \<Rightarrow>
          (if c = ascii ''start'' then on_db b (start (db b) (user_session w) u)
           else if c = ascii ''help'' then on_db b (help_command (db b) u)
           else if c = ascii ''setgenres'' then
             on_db b (set_genres_command (db b) (user_session w) (handler_session w) u)
           else if c = ascii ''getgenres'' then
             on_db b (get_genres (db b) (user_session w) (handler_session w) u)
           else if c = ascii ''getfilm'' then
             (case get_film (db b) (giga_chat_api b) (user_session w) (handler_session w)
                     (utcnow w) (oauth w) (completions w) u of
                ((d, out, e), g, calls) \<Rightarrow> (\<lparr>db = d, giga_chat_api = g\<rparr>, out, e, calls))
           else (b, [], None, []))
      | CallbackQuery data \<Rightarrow>
          (if startswith (ascii ''genre_'') data then
             on_db b (genre_callback (db b) (user_session w) (handler_session w) u)
           else (b, [], None, []))
      | Text t \<Rightarrow> on_db b (handle_text (db b) u))"

fun run :: "bot \<Rightarrow> (world \<times> Update) list \<Rightarrow> bot" where
  \<comment> \<open>the updates of a polling session, one after the other\<close>
  "run b [] = b"
| "run b ((w, u) # rest) = run (fst (dispatch b w u)) rest"

definition bot_init :: "pystr option \<Rightarrow> int \<Rightarrow> bot" where
  \<comment> \<open>the process at its start: the tables of \<open>init_db()\<close> and the module-level client\<close>
  "bot_init key now = \<lparr>db = init_db, giga_chat_api = GigaChatAPI_init key now\<rparr>"

section \<open>What the claims speak of\<close>

definition rows_for :: "database \<Rightarrow> nat \<Rightarrow> pystr \<Rightarrow> Genre list" where
  \<comment> \<open>the stored rows of one (user, label) pair\<close>
  "rows_for d uid label = filter (\<lambda>g. user_id g = uid \<and> genre_name g = label) (genres d)"

definition stored_labels :: "database \<Rightarrow> nat \<Rightarrow> pystr list" where
  \<comment> \<open>the labels stored for a user, in the order of the table\<close>
  "stored_labels d uid = map genre_name (filter (\<lambda>g. user_id g = uid) (genres d))"

definition user_rows :: "database \<Rightarrow> int \<Rightarrow> User list" where
  \<comment> \<open>the rows of \<open>users\<close> for one external identifier\<close>
  "user_rows d tgid = filter (\<lambda>r. telegram_id r = tgid) (users d)"

definition from_user :: "int \<Rightarrow> pystr option \<Rightarrow> incoming \<Rightarrow> Update" where
  \<comment> \<open>an update sent by the chat user with this identifier and handle\<close>
  "from_user tgid uname i =
     \<lparr>effective_user = Some \<lparr>tg_id = tgid, tg_username = uname\<rparr>, incoming = i\<rparr>"


definition new_genre :: "database \<Rightarrow> nat \<Rightarrow> pystr \<Rightarrow> Genre" where
  \<comment> \<open>the row \<open>genre_callback\<close> inserts for a user id and a label\<close>
  "new_genre d uid label =
     \<lparr>id_genre = next_id (map id_genre (genres d)), genre_name = label, user_id = uid\<rparr>"

definition registered :: "database \<Rightarrow> int \<Rightarrow> User \<Rightarrow> bool" where
  \<comment> \<open>the chat user has a row: the one the lookup of \<open>get_or_create_user\<close> finds\<close>
  "registered d tgid r \<longleftrightarrow> find (\<lambda>x. telegram_id x = tgid) (users d) = Some r"

definition sessions_succeed :: "world \<Rightarrow> bool" where
  \<comment> \<open>no operation of the two sessions of an update raises\<close>
  "sessions_succeed w \<longleftrightarrow> user_session w = no_faults \<and> handler_session w = no_faults"

definition pair_key :: "Genre \<Rightarrow> nat \<times> pystr" where
  "pair_key g = (user_id g, genre_name g)"

definition db_inv :: "database \<Rightarrow> bool" where
  \<comment> \<open>no two rows of \<open>users\<close> with one external identifier, no two rows of \<open>genres\<close> with
      one user and one label\<close>
  "db_inv d \<longleftrightarrow> distinct (map telegram_id (users d)) \<and> distinct (map pair_key (genres d))"

subsection \<open>A small database to run the handlers on\<close>

definition alice :: User where
  "alice = \<lparr>id_user = 1, telegram_id = 42, username = Some (ascii ''alice'')\<rparr>"

definition comedy :: Genre where
  \<comment> \<open>the second label of the keyboard, stored for alice\<close>
  "comedy = \<lparr>id_genre = 1, genre_name = AVAILABLE_GENRES ! 1, user_id = 1\<rparr>"

definition bot_with_alice :: bot where
  "bot_with_alice =
     \<lparr>db = \<lparr>users = [alice], genres = [comedy]\<rparr>, giga_chat_api = GigaChatAPI_init None 0\<rparr>"

definition noir :: pystr where
  \<comment> \<open>a label the keyboard does not offer\<close>
  "noir = ascii ''Noir''"


subsection \<open>The trace of the client\<close>

fun is_oauth_post :: "http_call \<Rightarrow> bool" where
  "is_oauth_post (oauth_post key) = True"
| "is_oauth_post (completions_post tok msg) = False"

definition refreshes :: "http_call list \<Rightarrow> nat" where
  \<comment> \<open>how many requests of a trace went to the token endpoint\<close>
  "refreshes calls = length (filter is_oauth_post calls)"

subsection \<open>A client and two bodies to run it on\<close>

definition fresh_client :: GigaChatAPI where
  \<comment> \<open>the client as the module creates it, at instant 0\<close>
  "fresh_client = GigaChatAPI_init None 0"

definition token_body :: json where
  \<comment> \<open>a token that expires 2000 ms after the epoch\<close>
  "token_body = JDict [(ascii ''access_token'', JStr (ascii ''tok'')), (ascii ''expires_at'', JInt 2000)]"

definition with_token :: GigaChatAPI where
  \<comment> \<open>the client after it stored \<open>token_body\<close>\<close>
  "with_token = \<lparr>authorization_key = None, access_token = JStr (ascii ''tok''), token_expiry = 2000000\<rparr>"

definition completion_body :: "json \<Rightarrow> json" where
  \<comment> \<open>a completion with one choice, whose message has the given content\<close>
  "completion_body content =
     JDict [(ascii ''choices'',
             JList [JDict [(ascii ''message'', JDict [(ascii ''content'', content)])]])]"


section \<open>Lemmas about the embedding\<close>

lemma distinct_key_filter_le1:
  "distinct (map k xs) \<Longrightarrow> length (filter (\<lambda>x. k x = v) xs) \<le> Suc 0"
proof (induction xs)
  case Nil
  then show ?case by simp
next
  case (Cons x xs)
  have "k x = v \<Longrightarrow> filter (\<lambda>y. k y = v) xs = []"
    using Cons.prems by (auto simp: filter_empty_conv image_iff)
  with Cons show ?case by auto
qed

lemma find_append_new:
  "find p xs = None \<Longrightarrow> p y \<Longrightarrow> find p (xs @ [y]) = Some y"
  by (induction xs) (auto split: if_splits)

lemma find_Some_mem: "find p xs = Some x \<Longrightarrow> x \<in> set xs \<and> p x"
  by (induction xs) (auto split: if_splits)

lemma get_or_create_user_genres [simp]:
  "genres (fst (get_or_create_user d f u)) = genres d"
  by (auto simp: get_or_create_user_def query_first_def add_commit_user_def Let_def
           split: option.splits sum.splits)

lemma get_or_create_user_found:
  assumes "effective_user u = Some eu" "\<not> query_raises f"
    and "find (\<lambda>r. telegram_id r = tg_id eu) (users d) = Some r"
  shows "get_or_create_user d f u = (d, Some (Loaded r))"
  using assms by (simp add: get_or_create_user_def query_first_def)

lemma get_or_create_user_created:
  assumes "effective_user u = Some eu" "\<not> query_raises f" "\<not> add_raises f" "\<not> commit_raises f"
    and "find (\<lambda>r. telegram_id r = tg_id eu) (users d) = None"
  shows "get_or_create_user d f u =
           (d\<lparr>users := users d @ [\<lparr>id_user = next_id (map id_user (users d)),
                                      telegram_id = tg_id eu, username = tg_username eu\<rparr>]\<rparr>,
            Some (Expired \<lparr>id_user = next_id (map id_user (users d)),
                           telegram_id = tg_id eu, username = tg_username eu\<rparr>))"
proof -
  have "tg_id eu \<notin> set (map telegram_id (users d))"
    using assms(5) by (auto simp: find_None_iff)
  with assms show ?thesis
    by (simp add: get_or_create_user_def query_first_def add_commit_user_def Let_def)
qed

lemma get_or_create_user_cases:
  "get_or_create_user d f u = (d', r) \<Longrightarrow>
     (d' = d \<and> (r = None \<or> (\<exists>row. r = Some (Loaded row) \<and> row \<in> set (users d))
                \<or> (\<exists>t n. r = Some (Unsaved t n))))
   \<or> (\<exists>row. r = Some (Expired row) \<and> d' = d\<lparr>users := users d @ [row]\<rparr>
            \<and> telegram_id row \<notin> set (map telegram_id (users d)))"
  by (auto simp: get_or_create_user_def query_first_def add_commit_user_def Let_def
           split: option.splits sum.splits if_splits dest: find_Some_mem)

lemma get_or_create_user_distinct:
  "distinct (map telegram_id (users d)) \<Longrightarrow>
   distinct (map telegram_id (users (fst (get_or_create_user d f u))))"
  using get_or_create_user_cases [of d f u "fst (get_or_create_user d f u)" "snd (get_or_create_user d f u)"]
  by auto


lemma and_then_Inr_iff: "and_then m f = Inr y \<longleftrightarrow> (\<exists>x. m = Inr x \<and> f x = Inr y)"
  by (cases m) auto

lemma and_then_Inl_iff: "and_then m f = Inl e \<longleftrightarrow> m = Inl e \<or> (\<exists>x. m = Inr x \<and> f x = Inl e)"
  by (cases m) auto

lemma chosen_genre_of_payload:
  "getindex1 (split1 95 (ascii ''genre_'' @ x)) = Inr x"
  by (simp add: ascii_def getindex1_def)

lemma startswith_genre: "startswith (ascii ''genre_'') (ascii ''genre_'' @ x)"
  by (simp add: startswith_def)

lemma genre_callback_cases:
  assumes "genre_callback d fu fh u = (d', out, e)"
  shows "(users d' = users d \<or> users d' = users (fst (get_or_create_user d fu u))) \<and>
         (genres d' = genres d \<or>
           (\<exists>row. genres d' = genres d @ [row] \<and> pair_key row \<notin> set (map pair_key (genres d))))"
proof (cases "get_or_create_user d fu u")
  case (Pair d1 r)
  have g1: "genres d1 = genres d"
    using get_or_create_user_genres [of d fu u] Pair by simp
  show ?thesis
    using assms Pair g1
    by (auto simp: genre_callback_def query_first_def add_commit_genre_def pair_key_def
                 find_None_iff image_iff and_then_Inr_iff
           split: incoming.splits sum.splits option.splits if_splits) blast+
qed

lemma set_genres_command_cases:
  assumes "set_genres_command d fu fh u = (d', out, e)"
  shows "users d' = users (fst (get_or_create_user d fu u)) \<and>
         (\<exists>p. genres d' = filter p (genres d))"
proof (cases "get_or_create_user d fu u")
  case (Pair d1 r)
  have g1: "genres d1 = genres d"
    using get_or_create_user_genres [of d fu u] Pair by simp
  have triv: "\<exists>p. genres d = filter p (genres d)"
    by (rule exI [of _ "\<lambda>_. True"]) simp
  show ?thesis
    using assms Pair g1 triv
    by (auto simp: set_genres_command_def delete_commit_genres_def and_then_Inr_iff
             split: sum.splits option.splits if_splits)
qed

lemma get_genres_db:
  "fst (get_genres d fu fh u) = fst (get_or_create_user d fu u)"
  by (auto simp: get_genres_def split: prod.splits option.splits sum.splits)

lemma start_db:
  "fst (start d fu u) = fst (get_or_create_user d fu u)"
  by (auto simp: start_def split: prod.splits option.splits)

lemma get_film_db:
  "fst (fst (get_film d g fu fh now te ce u)) = fst (get_or_create_user d fu u)"
  by (auto simp: get_film_def split: prod.splits option.splits sum.splits)

lemma db_inv_get_or_create_user:
  "db_inv d \<Longrightarrow> db_inv (fst (get_or_create_user d f u))"
  using get_or_create_user_distinct [of d f u] by (simp add: db_inv_def)

lemma db_inv_genre_callback:
  assumes "db_inv d" shows "db_inv (fst (genre_callback d fu fh u))"
proof -
  obtain d' out e where h: "genre_callback d fu fh u = (d', out, e)"
    by (cases "genre_callback d fu fh u") auto
  from genre_callback_cases [OF h] assms get_or_create_user_distinct [of d fu u]
  show ?thesis unfolding h db_inv_def by auto
qed

lemma db_inv_set_genres_command:
  assumes "db_inv d" shows "db_inv (fst (set_genres_command d fu fh u))"
proof -
  obtain d' out e where h: "set_genres_command d fu fh u = (d', out, e)"
    by (cases "set_genres_command d fu fh u") auto
  from set_genres_command_cases [OF h] assms get_or_create_user_distinct [of d fu u]
  show ?thesis unfolding h db_inv_def by (auto simp: distinct_map_filter)
qed

lemma db_inv_dispatch:
  assumes "db_inv (db b)" shows "db_inv (db (fst (dispatch b w u)))"
proof -
  have a: "db_inv (fst (start (db b) (user_session w) u))"
    using assms by (simp add: start_db db_inv_get_or_create_user)
  have c: "db_inv (fst (get_genres (db b) (user_session w) (handler_session w) u))"
    using assms by (simp add: get_genres_db db_inv_get_or_create_user)
  have f: "db_inv (fst (fst (get_film (db b) (giga_chat_api b) (user_session w)
             (handler_session w) (utcnow w) (oauth w) (completions w) u)))"
    using assms by (simp add: get_film_db db_inv_get_or_create_user)
  note s = db_inv_set_genres_command [OF assms, of "user_session w" "handler_session w" u]
  note g = db_inv_genre_callback [OF assms, of "user_session w" "handler_session w" u]
  show ?thesis
    using assms a c f s g
    by (auto simp: dispatch_def on_db_def help_command_def handle_text_def
             split: incoming.splits prod.splits)
qed

lemma db_inv_run: "db_inv (db b) \<Longrightarrow> db_inv (db (run b evs))"
proof (induction evs arbitrary: b)
  case Nil
  then show ?case by simp
next
  case (Cons ev evs)
  obtain w u where ev: "ev = (w, u)" by (cases ev)
  show ?case unfolding ev using Cons.IH [OF db_inv_dispatch [OF Cons.prems]] by simp
qed

lemma db_inv_init: "db_inv (db (bot_init key now))"
  by (simp add: db_inv_def bot_init_def init_db_def)


declare split1.simps [simp del]

lemma find_None_filter: "find p xs = None \<longleftrightarrow> filter p xs = []"
  by (induction xs) auto

lemma no_faults_simps [simp]:
  "\<not> query_raises no_faults" "\<not> add_raises no_faults" "\<not> commit_raises no_faults"
  "\<not> delete_raises no_faults"
  by (simp_all add: no_faults_def)

lemma from_user_simps [simp]:
  "effective_user (from_user tgid uname i) = Some \<lparr>tg_id = tgid, tg_username = uname\<rparr>"
  "incoming (from_user tgid uname i) = i"
  by (simp_all add: from_user_def)

lemma get_or_create_user_registered:
  "registered d tgid r \<Longrightarrow> \<not> query_raises f \<Longrightarrow>
   get_or_create_user d f (from_user tgid uname i) = (d, Some (Loaded r))"
  by (rule get_or_create_user_found [where eu = "\<lparr>tg_id = tgid, tg_username = uname\<rparr>"])
     (simp_all add: registered_def)

lemma genre_callback_registered:
  assumes "registered d tgid r" "\<not> query_raises fu"
  shows "genre_callback d fu no_faults (from_user tgid uname (CallbackQuery (ascii ''genre_'' @ x))) =
           (if rows_for d (id_user r) x \<noteq> []
            then (d, [answer, edit_message_text (genre_word @ x @ already_added_suffix)], None)
            else (d\<lparr>genres := genres d @ [new_genre d (id_user r) x]\<rparr>,
                  [answer, edit_message_text (genre_word @ x @ added_suffix)], None))"
proof (cases "find (\<lambda>g. user_id g = id_user r \<and> genre_name g = x) (genres d)")
  case None
  then have "rows_for d (id_user r) x = []"
    by (simp add: rows_for_def find_None_filter)
  with None show ?thesis
    by (simp add: genre_callback_def chosen_genre_of_payload
          get_or_create_user_registered [OF assms] query_first_def add_commit_genre_def
          new_genre_def)
next
  case (Some g)
  then have "rows_for d (id_user r) x \<noteq> []"
    using find_None_filter [of "\<lambda>g. user_id g = id_user r \<and> genre_name g = x" "genres d"]
    by (simp add: rows_for_def)
  with Some show ?thesis
    by (simp add: genre_callback_def chosen_genre_of_payload
          get_or_create_user_registered [OF assms] query_first_def)
qed

lemma set_genres_command_registered:
  assumes "registered d tgid r" "\<not> query_raises fu"
  shows "set_genres_command d fu no_faults (from_user tgid uname i) =
           (d\<lparr>genres := filter (\<lambda>g. user_id g \<noteq> id_user r) (genres d)\<rparr>,
            [reply_text msg_choose_genres (Some genre_keyboard)], None)"
  by (simp add: set_genres_command_def get_or_create_user_registered [OF assms]
        delete_commit_genres_def)


lemma rows_for_stored: "rows_for d uid x \<noteq> [] \<longleftrightarrow> x \<in> set (stored_labels d uid)"
  by (auto simp: rows_for_def stored_labels_def filter_empty_conv)

lemma stored_labels_append:
  "stored_labels (d\<lparr>genres := genres d @ [new_genre d uid x]\<rparr>) uid' =
     (if uid' = uid then stored_labels d uid @ [x] else stored_labels d uid')"
  by (simp add: stored_labels_def new_genre_def)

lemma stored_labels_deleted:
  "stored_labels (d\<lparr>genres := filter (\<lambda>g. user_id g \<noteq> uid) (genres d)\<rparr>) uid' =
     (if uid' = uid then [] else stored_labels d uid')"
  by (auto simp: stored_labels_def filter_empty_conv intro: filter_cong arg_cong [where f = "map genre_name"])

lemma registered_genres_update [simp]:
  "registered (d\<lparr>genres := gs\<rparr>) tgid r = registered d tgid r"
  by (simp add: registered_def)



lemma user_rows_le1: "db_inv d \<Longrightarrow> length (user_rows d tgid) \<le> 1"
proof -
  assume "db_inv d"
  then have "distinct (map telegram_id (users d))" by (simp add: db_inv_def)
  from distinct_key_filter_le1 [OF this, of tgid]
  show ?thesis by (simp add: user_rows_def)
qed

lemma dispatch_callback:
  "dispatch b w (from_user tgid uname (CallbackQuery (ascii ''genre_'' @ x))) =
     on_db b (genre_callback (db b) (user_session w) (handler_session w)
                (from_user tgid uname (CallbackQuery (ascii ''genre_'' @ x))))"
  by (simp add: dispatch_def startswith_genre)

lemma dispatch_setgenres:
  "dispatch b w (from_user tgid uname (Command (ascii ''setgenres''))) =
     on_db b (set_genres_command (db b) (user_session w) (handler_session w)
                (from_user tgid uname (Command (ascii ''setgenres''))))"
  by (simp add: dispatch_def ascii_def)


lemma press_registered:
  assumes "registered (db b) tgid r" "sessions_succeed w"
  shows "dispatch b w (from_user tgid uname (CallbackQuery (ascii ''genre_'' @ x))) =
           (if rows_for (db b) (id_user r) x \<noteq> []
            then (b, [answer, edit_message_text (genre_word @ x @ already_added_suffix)], None, [])
            else (b\<lparr>db := (db b)\<lparr>genres := genres (db b) @ [new_genre (db b) (id_user r) x]\<rparr>\<rparr>,
                  [answer, edit_message_text (genre_word @ x @ added_suffix)], None, []))"
proof -
  from assms(2) have s: "user_session w = no_faults" "handler_session w = no_faults"
    by (simp_all add: sessions_succeed_def)
  have q: "\<not> query_raises no_faults" by simp
  show ?thesis
    unfolding dispatch_callback s genre_callback_registered [OF assms(1) q]
    by (simp add: on_db_def)
qed

lemma alice_registered: "registered (db bot_with_alice) 42 alice"
  by (simp add: registered_def bot_with_alice_def alice_def)

lemma calm_succeeds: "sessions_succeed calm"
  by (simp add: sessions_succeed_def calm_def)


lemma alice_labels: "stored_labels (db bot_with_alice) (id_user alice) = [AVAILABLE_GENRES ! 1]"
  by (simp add: stored_labels_def bot_with_alice_def alice_def comedy_def)


lemma setgenres_registered:
  assumes "registered (db b) tgid r" "sessions_succeed w"
  shows "dispatch b w (from_user tgid uname (Command (ascii ''setgenres''))) =
           (b\<lparr>db := (db b)\<lparr>genres := filter (\<lambda>g. user_id g \<noteq> id_user r) (genres (db b))\<rparr>\<rparr>,
            [reply_text msg_choose_genres (Some genre_keyboard)], None, [])"
proof -
  from assms(2) have s: "user_session w = no_faults" "handler_session w = no_faults"
    by (simp_all add: sessions_succeed_def)
  have q: "\<not> query_raises no_faults" by simp
  show ?thesis
    unfolding dispatch_setgenres s set_genres_command_registered [OF assms(1) q]
    by (simp add: on_db_def)
qed

lemma press_labels:
  assumes "registered (db b) tgid r" "sessions_succeed w"
  shows "registered (db (fst (dispatch b w (from_user tgid uname (CallbackQuery (ascii ''genre_'' @ x)))))) tgid r"
    and "stored_labels (db (fst (dispatch b w (from_user tgid uname (CallbackQuery (ascii ''genre_'' @ x)))))) (id_user r) =
           (if x \<in> set (stored_labels (db b) (id_user r)) then stored_labels (db b) (id_user r)
            else stored_labels (db b) (id_user r) @ [x])"
  using assms(1)
  by (simp_all add: press_registered [OF assms] rows_for_stored stored_labels_append)



lemma distinct_key_filter_single:
  "distinct (map k xs) \<Longrightarrow> x \<in> set xs \<Longrightarrow> filter (\<lambda>y. k y = k x) xs = [x]"
proof (induction xs)
  case Nil
  then show ?case by simp
next
  case (Cons y ys)
  show ?case
  proof (cases "y = x")
    case True
    have "filter (\<lambda>z. k z = k x) ys = []"
      using Cons.prems(1) True by (auto simp: filter_empty_conv image_iff)
    with True show ?thesis by simp
  next
    case False
    with Cons.prems have "x \<in> set ys" "k y \<noteq> k x" by (auto simp: image_iff)
    with Cons show ?thesis by simp
  qed
qed

lemma get_or_create_user_row:
  assumes "get_or_create_user d f (from_user tgid uname i) = (d1, Some o1)" "row_of o1 = Some r"
  shows "registered d1 tgid r"
  using assms
  by (auto simp: get_or_create_user_def query_first_def add_commit_user_def Let_def
                 registered_def find_append_new
           split: option.splits sum.splits if_splits)

lemma request_access_token_calls:
  "snd (snd (request_access_token g ep)) = [oauth_post (authorization_key g)]"
  by (simp add: request_access_token_def Let_def split: sum.splits)

lemma request_access_token_key:
  "authorization_key (fst (snd (request_access_token g ep))) = authorization_key g"
  by (simp add: request_access_token_def Let_def split: sum.splits)

lemma request_access_token_ok:
  assumes "getitem body (ascii ''access_token'') = Inr tok"
    and "getitem body (ascii ''expires_at'') = Inr ea" "utcfromtimestamp_ms ea = Inr e"
  shows "request_access_token g (json_returns body) =
           (Inr (), g\<lparr>access_token := tok, token_expiry := e\<rparr>, [oauth_post (authorization_key g)])"
  using assms by (simp add: request_access_token_def)

lemma request_access_token_fails:
  assumes "response_json ep = Inl e \<or>
           (\<exists>j. response_json ep = Inr j \<and> getitem j (ascii ''access_token'') = Inl e)"
  shows "request_access_token g ep = (Inl e, g, [oauth_post (authorization_key g)])"
  using assms by (auto simp: request_access_token_def)

lemma get_access_token_calls:
  "snd (snd (get_access_token g now ep)) =
     (if \<not> truthy (access_token g) \<or> token_expiry g \<le> now
      then [oauth_post (authorization_key g)] else [])"
  using request_access_token_calls [of g ep]
  by (auto simp: get_access_token_def split: prod.splits sum.splits)

lemma get_access_token_held:
  "truthy (access_token g) \<Longrightarrow> now < token_expiry g \<Longrightarrow>
   get_access_token g now ep = (Inr (access_token g), g, [])"
  by (simp add: get_access_token_def)

lemma get_access_token_key:
  "authorization_key (fst (snd (get_access_token g now ep))) = authorization_key g"
  using request_access_token_key [of g ep]
  by (auto simp: get_access_token_def split: prod.splits sum.splits)

lemma generate_recipe_state:
  "fst (snd (generate_recipe g now te ce m)) = fst (snd (get_access_token g now te))"
  by (simp add: generate_recipe_def split: prod.splits sum.splits)

lemma generate_recipe_refreshes:
  "refreshes (snd (snd (generate_recipe g now te ce m))) =
     refreshes (snd (snd (get_access_token g now te)))"
  by (simp add: generate_recipe_def refreshes_def split: prod.splits sum.splits)

lemma get_access_token_refreshed:
  assumes "\<not> truthy (access_token g) \<or> token_expiry g \<le> now"
    and "getitem body (ascii ''access_token'') = Inr tok"
    and "getitem body (ascii ''expires_at'') = Inr ea" "utcfromtimestamp_ms ea = Inr e"
  shows "get_access_token g now (json_returns body) =
           (Inr tok, g\<lparr>access_token := tok, token_expiry := e\<rparr>, [oauth_post (authorization_key g)])"
  using assms(1) by (auto simp: get_access_token_def request_access_token_ok [OF assms(2-4)])

lemma token_body_fields:
  "getitem token_body (ascii ''access_token'') = Inr (JStr (ascii ''tok''))"
  "getitem token_body (ascii ''expires_at'') = Inr (JInt 2000)"
  "utcfromtimestamp_ms (JInt 2000) = Inr 2000000"
  by (simp_all add: token_body_def ascii_def)

lemma completion_body_content: "first_choice_content (completion_body c) = Inr c"
  by (simp add: first_choice_content_def completion_body_def ascii_def)

lemma strip_example: "strip (ascii '' Solaris  '') = ascii ''Solaris''"
  by (simp add: strip_def ascii_def isspace_def)

lemma generate_first:
  "generate_recipe fresh_client 5 (json_returns token_body)
       (json_returns (completion_body (JStr (ascii '' Solaris  '')))) (ascii ''m1'') =
     (Inr (ascii ''Solaris''), with_token,
      [oauth_post None, completions_post (JStr (ascii ''tok'')) (ascii ''m1'')])"
proof -
  have "get_access_token fresh_client 5 (json_returns token_body) =
    (Inr (JStr (ascii ''tok'')), with_token, [oauth_post None])"
    using get_access_token_refreshed [OF _ token_body_fields, of fresh_client 5]
    by (simp add: fresh_client_def GigaChatAPI_init_def with_token_def)
  then show ?thesis
    by (simp add: generate_recipe_def completion_body_content strip_example)
qed

lemma generate_held:
  "generate_recipe with_token 1000000 post_raises
       (json_returns (completion_body (JStr (ascii '' Solaris  '')))) (ascii ''m2'') =
     (Inr (ascii ''Solaris''), with_token, [completions_post (JStr (ascii ''tok'')) (ascii ''m2'')])"
proof -
  have "get_access_token with_token 1000000 post_raises = (Inr (access_token with_token), with_token, [])"
    by (rule get_access_token_held) (simp_all add: with_token_def ascii_def)
  then show ?thesis
    by (simp add: generate_recipe_def completion_body_content strip_example with_token_def)
qed

lemma generate_expired:
  "generate_recipe with_token 2000000 post_raises
       (json_returns (completion_body (JStr (ascii '' Solaris  '')))) (ascii ''m3'') =
     (Inl ConnectionError, with_token, [oauth_post None])"
  by (simp add: generate_recipe_def get_access_token_def request_access_token_def with_token_def)


lemma generate_recipe_with_token:
  assumes "fst (get_access_token g now te) = Inr tok"
  shows "fst (generate_recipe g now te ce m) =
           (case and_then (and_then (response_json ce) first_choice_content) strip_method of
              Inl e \<Rightarrow> if is_RequestException e then Inr fallback_text else Inl e
            | Inr s \<Rightarrow> Inr s)"
  using assms by (auto simp: generate_recipe_def split: prod.splits sum.splits)

lemma first_choice_content_errors:
  "first_choice_content j = Inl e \<Longrightarrow> e = KeyError \<or> e = IndexError \<or> e = TypeError"
proof -
  have k: "\<And>x key err. getitem x key = Inl err \<Longrightarrow> err = KeyError \<or> err = TypeError"
    by (erule getitem.elims) (auto split: option.splits)
  have z: "\<And>x err. getitem0 x = Inl err \<Longrightarrow> err = KeyError \<or> err = IndexError \<or> err = TypeError"
    by (erule getitem0.elims) auto
  assume "first_choice_content j = Inl e"
  then show ?thesis
    by (auto simp: first_choice_content_def and_then_Inl_iff dest: k z)
qed

text \<open>
  \<open>strip\<close> removes a run of white space at each end and nothing else, and what it returns
  neither starts nor ends with white space.
\<close>

lemma strip_inner:
  "dropWhile isspace s = strip s @ rev (takeWhile isspace (rev (dropWhile isspace s)))"
proof -
  let ?x = "rev (dropWhile isspace s)"
  have "rev (takeWhile isspace ?x @ dropWhile isspace ?x) =
          rev (dropWhile isspace ?x) @ rev (takeWhile isspace ?x)"
    by (rule rev_append)
  then have "rev ?x = rev (dropWhile isspace ?x) @ rev (takeWhile isspace ?x)"
    by (simp only: takeWhile_dropWhile_id)
  then show ?thesis by (simp only: rev_rev_ident strip_def)
qed

lemma strip_decomposition:
  "s = takeWhile isspace s @ strip s @ rev (takeWhile isspace (rev (dropWhile isspace s)))"
proof -
  have "s = takeWhile isspace s @ dropWhile isspace s" by simp
  then show ?thesis using strip_inner [of s] by simp
qed

lemma strip_ends:
  assumes "strip s \<noteq> []"
  shows "\<not> isspace (hd (strip s)) \<and> \<not> isspace (last (strip s))"
proof -
  let ?d = "dropWhile isspace s"
  let ?e = "dropWhile isspace (rev ?d)"
  from assms have e: "?e \<noteq> []" by (simp add: strip_def)
  then have "\<not> isspace (hd ?e)" by (rule hd_dropWhile)
  with e have l: "\<not> isspace (last (strip s))" by (simp add: strip_def last_rev)
  have d: "?d \<noteq> []"
  proof
    assume a: "?d = []"
    have "strip s = []" unfolding strip_def a by simp
    with assms show False by simp
  qed
  then have "\<not> isspace (hd ?d)" by (rule hd_dropWhile)
  moreover from assms have "hd ?d = hd (strip s)"
    using strip_inner [of s] hd_append2 [OF assms] by metis
  ultimately show ?thesis using l by simp
qed


section \<open>The claims\<close>

subsection \<open>C1: one stored row for a user and a label\<close>



subsection \<open>C2: the reset command, then two labels\<close>

text \<open>
  C2. For a chat user who has a row in \<open>users\<close>, whatever \<open>genres\<close> holds, and with no
  session operation raising: after \<open>/setgenres\<close> no label is stored for the user, and
  after \<open>/setgenres\<close> and the presses of the labels \<open>l1\<close> and \<open>l2\<close> the labels stored for
  the user are \<open>l1\<close> and \<open>l2\<close>, in that order, and nothing else.
\<close>

theorem setgenres_replaces:
  assumes "registered (db b) tgid r"
    and "sessions_succeed w1" "sessions_succeed w2" "sessions_succeed w3"
  shows "stored_labels (db (run b [(w1, from_user tgid n1 (Command (ascii ''setgenres'')))])) (id_user r) = [] \<and>
         stored_labels
           (db (run b [(w1, from_user tgid n1 (Command (ascii ''setgenres''))),
                       (w2, from_user tgid n2 (CallbackQuery (ascii ''genre_'' @ l1))),
                       (w3, from_user tgid n3 (CallbackQuery (ascii ''genre_'' @ l2)))]))
           (id_user r) = (if l1 = l2 then [l1] else [l1, l2]) \<and>
         set (stored_labels
           (db (run b [(w1, from_user tgid n1 (Command (ascii ''setgenres''))),
                       (w2, from_user tgid n2 (CallbackQuery (ascii ''genre_'' @ l1))),
                       (w3, from_user tgid n3 (CallbackQuery (ascii ''genre_'' @ l2)))]))
           (id_user r)) = {l1, l2}"
proof -
  let ?b1 = "fst (dispatch b w1 (from_user tgid n1 (Command (ascii ''setgenres''))))"
  let ?b2 = "fst (dispatch ?b1 w2 (from_user tgid n2 (CallbackQuery (ascii ''genre_'' @ l1))))"
  let ?b3 = "fst (dispatch ?b2 w3 (from_user tgid n3 (CallbackQuery (ascii ''genre_'' @ l2))))"
  have r1: "registered (db ?b1) tgid r"
    using assms(1) by (simp add: setgenres_registered [OF assms(1,2)])
  have s1: "stored_labels (db ?b1) (id_user r) = []"
    by (simp add: setgenres_registered [OF assms(1,2)] stored_labels_deleted)
  have r2: "registered (db ?b2) tgid r"
    by (rule press_labels(1) [OF r1 assms(3)])
  have s2: "stored_labels (db ?b2) (id_user r) = [l1]"
    by (simp add: press_labels(2) [OF r1 assms(3)] s1)
  have s3: "stored_labels (db ?b3) (id_user r) = (if l1 = l2 then [l1] else [l1, l2])"
    unfolding press_labels(2) [OF r2 assms(4)] s2 by simp
  show ?thesis using s1 s3 by simp
qed

theorem setgenres_replaces_witness:
  "registered (db bot_with_alice) 42 alice \<and> sessions_succeed calm \<and>
   stored_labels (db bot_with_alice) 1 = [AVAILABLE_GENRES ! 1] \<and>
   stored_labels (db (run bot_with_alice [(calm, from_user 42 None (Command (ascii ''setgenres'')))])) 1 = [] \<and>
   stored_labels
     (db (run bot_with_alice [(calm, from_user 42 None (Command (ascii ''setgenres''))),
                              (calm, from_user 42 None (CallbackQuery (ascii ''genre_'' @ noir))),
                              (calm, from_user 42 None (CallbackQuery (ascii ''genre_'' @ AVAILABLE_GENRES ! 0)))]))
     1 = [noir, AVAILABLE_GENRES ! 0]"
proof -
  note t = setgenres_replaces [OF alice_registered calm_succeeds calm_succeeds calm_succeeds,
      where ?n1.0 = None and ?n2.0 = None and ?n3.0 = None and ?l1.0 = noir
        and ?l2.0 = "AVAILABLE_GENRES ! 0"]
  have i: "id_user alice = 1" by (simp add: alice_def)
  have n: "noir \<noteq> AVAILABLE_GENRES ! 0"
    by (simp add: noir_def ascii_def AVAILABLE_GENRES_def)
  from t alice_registered calm_succeeds alice_labels n show ?thesis
    by (simp add: i)
qed

subsection \<open>C3: get_or_create_user, called twice\<close>

text \<open>
  C3. In a state \<open>d\<close> reached from the empty tables: when a call of \<open>get_or_create_user\<close>
  returned an object that stands for a row \<open>r\<close> (found, or inserted and committed), a
  second call for the same external identifier whose lookup does not raise returns \<open>r\<close>
  and leaves the database as the first call left it; \<open>users\<close> then holds exactly the row \<open>r\<close>
  for the identifier, and in \<open>d\<close> no identifier has two rows.
\<close>

theorem get_or_create_user_idempotent:
  assumes "d = db (run (bot_init key t0) evs)"
    and "get_or_create_user d f (from_user tgid uname i) = (d1, Some o1)"
    and "row_of o1 = Some r" and "\<not> query_raises f'"
  shows "get_or_create_user d1 f' (from_user tgid uname' i') = (d1, Some (Loaded r)) \<and>
         user_rows d1 tgid = [r] \<and>
         (\<forall>t. length (user_rows d t) \<le> 1)"
proof -
  have inv: "db_inv d" unfolding assms(1) by (rule db_inv_run [OF db_inv_init])
  have reg: "registered d1 tgid r" by (rule get_or_create_user_row [OF assms(2,3)])
  have "db_inv (fst (get_or_create_user d f (from_user tgid uname i)))"
    by (rule db_inv_get_or_create_user [OF inv])
  then have dist: "distinct (map telegram_id (users d1))"
    by (simp add: assms(2) db_inv_def)
  from reg have mem: "r \<in> set (users d1)" "telegram_id r = tgid"
    using find_Some_mem [of "\<lambda>x. telegram_id x = tgid" "users d1" r]
    by (simp_all add: registered_def)
  from distinct_key_filter_single [OF dist mem(1)] mem(2)
  have one: "user_rows d1 tgid = [r]" by (simp add: user_rows_def)
  from get_or_create_user_registered [OF reg assms(4)] one user_rows_le1 [OF inv]
  show ?thesis by simp
qed

theorem get_or_create_user_idempotent_witness:
  "init_db = db (run (bot_init None 0) []) \<and>
   get_or_create_user init_db no_faults (from_user 42 None (Command (ascii ''start''))) =
     (\<lparr>users = [\<lparr>id_user = 1, telegram_id = 42, username = None\<rparr>], genres = []\<rparr>,
      Some (Expired \<lparr>id_user = 1, telegram_id = 42, username = None\<rparr>)) \<and>
   \<not> query_raises no_faults \<and>
   get_or_create_user \<lparr>users = [\<lparr>id_user = 1, telegram_id = 42, username = None\<rparr>], genres = []\<rparr>
       no_faults (from_user 42 (Some noir) (Command (ascii ''help''))) =
     (\<lparr>users = [\<lparr>id_user = 1, telegram_id = 42, username = None\<rparr>], genres = []\<rparr>,
      Some (Loaded \<lparr>id_user = 1, telegram_id = 42, username = None\<rparr>)) \<and>
   user_rows \<lparr>users = [\<lparr>id_user = 1, telegram_id = 42, username = None\<rparr>], genres = []\<rparr> 42 =
     [\<lparr>id_user = 1, telegram_id = 42, username = None\<rparr>]"
proof -
  have a: "init_db = db (run (bot_init None 0) [])" by (simp add: bot_init_def)
  have b: "get_or_create_user init_db no_faults (from_user 42 None (Command (ascii ''start''))) =
     (\<lparr>users = [\<lparr>id_user = 1, telegram_id = 42, username = None\<rparr>], genres = []\<rparr>,
      Some (Expired \<lparr>id_user = 1, telegram_id = 42, username = None\<rparr>))"
    by (simp add: get_or_create_user_def query_first_def add_commit_user_def init_db_def
          next_id_def Let_def)
  have c: "row_of (Expired \<lparr>id_user = 1, telegram_id = 42, username = None\<rparr>) =
             Some \<lparr>id_user = 1, telegram_id = 42, username = None\<rparr>" by simp
  have q: "\<not> query_raises no_faults" by simp
  from get_or_create_user_idempotent [OF a b c q, where uname' = "Some noir"
      and i' = "Command (ascii ''help'')"] a b q
  show ?thesis by simp
qed

subsection \<open>C4: when the token is refreshed\<close>

text \<open>
  C4. \<open>get_access_token\<close> sends one request to the token endpoint when the held token is
  None (or falsy in another way) or its expiry is at or before \<open>utcnow()\<close>, and none
  otherwise. So for a client that holds no token and an endpoint that answers with a token
  expiring at \<open>e\<close>: two calls of \<open>generate_recipe\<close>, the second before \<open>e\<close>, send exactly one
  request to the token endpoint between them, and a later call at or after \<open>e\<close> sends exactly
  one more.
\<close>

theorem token_refresh_iff_needed:
  "refreshes (snd (snd (get_access_token g now ep))) =
     (if \<not> truthy (access_token g) \<or> token_expiry g \<le> now then 1 else 0) \<and>
   (\<not> truthy (access_token g0) \<and>
    getitem body (ascii ''access_token'') = Inr tok \<and> truthy tok \<and>
    getitem body (ascii ''expires_at'') = Inr ea \<and> utcfromtimestamp_ms ea = Inr e \<and>
    t2 < e \<and> e \<le> t3 \<and>
    generate_recipe g0 t1 (json_returns body) ce1 m1 = (r1, g1, c1) \<and>
    generate_recipe g1 t2 te2 ce2 m2 = (r2, g2, c2) \<and>
    generate_recipe g2 t3 te3 ce3 m3 = (r3, g3, c3) \<longrightarrow>
    refreshes (c1 @ c2) = 1 \<and> refreshes c3 = 1)"
proof (rule conjI, goal_cases)
  case 1
  show "refreshes (snd (snd (get_access_token g now ep))) =
     (if \<not> truthy (access_token g) \<or> token_expiry g \<le> now then 1 else 0)"
    by (simp add: get_access_token_calls refreshes_def)
next
  case 2
  show ?case
  proof (rule impI)
  assume h: "\<not> truthy (access_token g0) \<and>
    getitem body (ascii ''access_token'') = Inr tok \<and> truthy tok \<and>
    getitem body (ascii ''expires_at'') = Inr ea \<and> utcfromtimestamp_ms ea = Inr e \<and>
    t2 < e \<and> e \<le> t3 \<and>
    generate_recipe g0 t1 (json_returns body) ce1 m1 = (r1, g1, c1) \<and>
    generate_recipe g1 t2 te2 ce2 m2 = (r2, g2, c2) \<and>
    generate_recipe g2 t3 te3 ce3 m3 = (r3, g3, c3)"
  then have first: "get_access_token g0 t1 (json_returns body) =
      (Inr tok, g0\<lparr>access_token := tok, token_expiry := e\<rparr>, [oauth_post (authorization_key g0)])"
    by (intro get_access_token_refreshed) auto
  from h have g1: "g1 = g0\<lparr>access_token := tok, token_expiry := e\<rparr>"
    using generate_recipe_state [of g0 t1 "json_returns body" ce1 m1] first by simp
  from h have n1: "refreshes c1 = 1"
    using generate_recipe_refreshes [of g0 t1 "json_returns body" ce1 m1] first
    by (simp add: refreshes_def)
  from h g1 have second: "get_access_token g1 t2 te2 = (Inr tok, g1, [])"
    using get_access_token_held [of g1 t2 te2] by simp
  from h have g2: "g2 = g1"
    using generate_recipe_state [of g1 t2 te2 ce2 m2] second by simp
  from h have n2: "refreshes c2 = 0"
    using generate_recipe_refreshes [of g1 t2 te2 ce2 m2] second
    by (simp add: refreshes_def)
  from h have n3: "refreshes c3 = 1"
    using generate_recipe_refreshes [of g2 t3 te3 ce3 m3] get_access_token_calls [of g2 t3 te3]
    by (simp add: refreshes_def g2 g1)
  from n1 n2 have "refreshes (c1 @ c2) = 1" by (simp add: refreshes_def)
  with n3 show "refreshes (c1 @ c2) = 1 \<and> refreshes c3 = 1" by simp
  qed
qed

theorem token_refresh_iff_needed_witness:
  "\<not> truthy (access_token fresh_client) \<and>
   getitem token_body (ascii ''access_token'') = Inr (JStr (ascii ''tok'')) \<and>
   truthy (JStr (ascii ''tok'')) \<and>
   getitem token_body (ascii ''expires_at'') = Inr (JInt 2000) \<and>
   utcfromtimestamp_ms (JInt 2000) = Inr 2000000 \<and>
   generate_recipe fresh_client 5 (json_returns token_body)
       (json_returns (completion_body (JStr (ascii '' Solaris  '')))) (ascii ''m1'') =
     (Inr (ascii ''Solaris''), with_token,
      [oauth_post None, completions_post (JStr (ascii ''tok'')) (ascii ''m1'')]) \<and>
   generate_recipe with_token 1000000 post_raises
       (json_returns (completion_body (JStr (ascii '' Solaris  '')))) (ascii ''m2'') =
     (Inr (ascii ''Solaris''), with_token, [completions_post (JStr (ascii ''tok'')) (ascii ''m2'')]) \<and>
   generate_recipe with_token 2000000 post_raises
       (json_returns (completion_body (JStr (ascii '' Solaris  '')))) (ascii ''m3'') =
     (Inl ConnectionError, with_token, [oauth_post None]) \<and>
   refreshes ([oauth_post None, completions_post (JStr (ascii ''tok'')) (ascii ''m1'')] @
              [completions_post (JStr (ascii ''tok'')) (ascii ''m2'')]) = 1 \<and>
   refreshes [oauth_post None] = 1"
proof -
  have a: "\<not> truthy (access_token fresh_client)"
    by (simp add: fresh_client_def GigaChatAPI_init_def)
  have b: "truthy (JStr (ascii ''tok''))" by (simp add: ascii_def)
  have t: "(1000000::int) < 2000000" "(2000000::int) \<le> 2000000" by simp_all
  note h = a token_body_fields(1) b token_body_fields(2,3) t generate_first generate_held
    generate_expired
  from token_refresh_iff_needed [THEN conjunct2, THEN mp, of fresh_client token_body
      "JStr (ascii ''tok'')" "JInt 2000" 2000000 1000000 2000000] h
  have "refreshes ([oauth_post None, completions_post (JStr (ascii ''tok'')) (ascii ''m1'')] @
              [completions_post (JStr (ascii ''tok'')) (ascii ''m2'')]) = 1 \<and>
        refreshes [oauth_post None] = 1"
    by blast
  with h show ?thesis by blast
qed

subsection \<open>C5: the fallback text\<close>



subsection \<open>C6: a failed commit in get_or_create_user\<close>

text \<open>
  C6. The claim is that a failure of the lookup, the insert or the commit surfaces as None.
  The code does so for the lookup only. For a chat user without a row whose commit raises,
  \<open>get_or_create_user\<close> returns the object it constructed at line 171, which no row of
  \<open>users\<close> stands behind, and \<open>start\<close> welcomes the user as if registered.
\<close>

theorem get_or_create_user_returns_unsaved:
  "get_or_create_user init_db (no_faults\<lparr>commit_raises := True\<rparr>)
       (from_user 42 None (Command (ascii ''start''))) =
     (init_db, Some (Unsaved 42 None)) \<and>
   user_rows init_db 42 = [] \<and>
   start init_db (no_faults\<lparr>commit_raises := True\<rparr>) (from_user 42 None (Command (ascii ''start''))) =
     (init_db, [reply_text msg_welcome (Some get_main_menu)], None)"
  by (simp add: get_or_create_user_def query_first_def add_commit_user_def init_db_def
        no_faults_def user_rows_def start_def)

subsection \<open>C7: the content of the first choice\<close>

text \<open>
  C7, as the code has it. Once the token is there and the completion endpoint answered
  with JSON: when \<open>choices[0].message.content\<close> is there and is a string, \<open>generate_recipe\<close>
  returns it stripped (\<open>strip_decomposition\<close>, \<open>strip_ends\<close>); when the path is not there, the KeyError, IndexError or TypeError
  of the lookup leaves \<open>generate_recipe\<close>, and it is no RequestException, so the except
  clause does not turn it into the fallback; when the content is there and is no string,
  an AttributeError leaves it.
\<close>

theorem generate_recipe_content:
  assumes "fst (get_access_token g now te) = Inr tok"
  shows "(first_choice_content j = Inr (JStr s) \<longrightarrow>
            fst (generate_recipe g now te (json_returns j) user_message) = Inr (strip s)) \<and>
         (first_choice_content j = Inl e \<longrightarrow>
            fst (generate_recipe g now te (json_returns j) user_message) = Inl e \<and>
            (e = KeyError \<or> e = IndexError \<or> e = TypeError) \<and> \<not> is_RequestException e) \<and>
         (first_choice_content j = Inr v \<and> (\<forall>t. v \<noteq> JStr t) \<longrightarrow>
            fst (generate_recipe g now te (json_returns j) user_message) = Inl AttributeError)"
proof (intro conjI impI)
  assume "first_choice_content j = Inr (JStr s)"
  then show "fst (generate_recipe g now te (json_returns j) user_message) = Inr (strip s)"
    by (simp add: generate_recipe_with_token [OF assms])
next
  assume h: "first_choice_content j = Inl e"
  from first_choice_content_errors [OF h]
  show e: "e = KeyError \<or> e = IndexError \<or> e = TypeError" .
  then show n: "\<not> is_RequestException e" by (auto simp: is_RequestException_def)
  from h n show "fst (generate_recipe g now te (json_returns j) user_message) = Inl e"
    by (simp add: generate_recipe_with_token [OF assms])
next
  assume "first_choice_content j = Inr v \<and> (\<forall>t. v \<noteq> JStr t)"
  then show "fst (generate_recipe g now te (json_returns j) user_message) = Inl AttributeError"
    by (cases v) (simp_all add: generate_recipe_with_token [OF assms] is_RequestException_def)
qed

theorem generate_recipe_content_witness:
  "fst (get_access_token with_token 1000000 post_raises) = Inr (JStr (ascii ''tok'')) \<and>
   first_choice_content (completion_body (JStr (ascii '' Solaris  ''))) = Inr (JStr (ascii '' Solaris  '')) \<and>
   fst (generate_recipe with_token 1000000 post_raises
          (json_returns (completion_body (JStr (ascii '' Solaris  '')))) (ascii ''m'')) =
     Inr (ascii ''Solaris'') \<and>
   first_choice_content (JDict []) = Inl KeyError \<and>
   fst (generate_recipe with_token 1000000 post_raises (json_returns (JDict [])) (ascii ''m'')) =
     Inl KeyError \<and>
   first_choice_content (completion_body JNull) = Inr JNull \<and>
   fst (generate_recipe with_token 1000000 post_raises (json_returns (completion_body JNull))
          (ascii ''m'')) = Inl AttributeError"
proof -
  have a: "fst (get_access_token with_token 1000000 post_raises) = Inr (JStr (ascii ''tok''))"
    using get_access_token_held [of with_token 1000000 post_raises]
    by (simp add: with_token_def ascii_def)
  have k: "first_choice_content (JDict []) = Inl KeyError"
    by (simp add: first_choice_content_def)
  note c = completion_body_content
  from generate_recipe_content [OF a, of "completion_body (JStr (ascii '' Solaris  ''))"
      "ascii '' Solaris  ''" "ascii ''m''"] c
  have 1: "fst (generate_recipe with_token 1000000 post_raises
          (json_returns (completion_body (JStr (ascii '' Solaris  '')))) (ascii ''m'')) =
     Inr (ascii ''Solaris'')" by (simp add: strip_example)
  from generate_recipe_content [OF a, of "JDict []" _ "ascii ''m''" KeyError] k
  have 2: "fst (generate_recipe with_token 1000000 post_raises (json_returns (JDict [])) (ascii ''m'')) =
     Inl KeyError" by simp
  from generate_recipe_content [OF a, of "completion_body JNull" _ "ascii ''m''" _ JNull] c
  have 3: "fst (generate_recipe with_token 1000000 post_raises (json_returns (completion_body JNull))
          (ascii ''m'')) = Inl AttributeError" by simp
  from a c k 1 2 3 show ?thesis by simp
qed

text \<open>
  The claim as written fails on the body \<open>{}\<close>, where the path is absent and a KeyError
  leaves \<open>generate_recipe\<close> (the program has no MalformedResponseError), and on a content
  of null, where the path is there and no text is returned.
\<close>

theorem generate_recipe_content_counterexample:
  "first_choice_content (JDict []) = Inl KeyError \<and>
   generate_recipe with_token 1000000 post_raises (json_returns (JDict [])) (ascii ''m'') =
     (Inl KeyError, with_token, [completions_post (JStr (ascii ''tok'')) (ascii ''m'')]) \<and>
   first_choice_content (completion_body JNull) = Inr JNull \<and>
   generate_recipe with_token 1000000 post_raises (json_returns (completion_body JNull)) (ascii ''m'') =
     (Inl AttributeError, with_token, [completions_post (JStr (ascii ''tok'')) (ascii ''m'')])"
proof -
  have a: "get_access_token with_token 1000000 post_raises = (Inr (JStr (ascii ''tok'')), with_token, [])"
    using get_access_token_held [of with_token 1000000 post_raises]
    by (simp add: with_token_def ascii_def)
  have k: "first_choice_content (JDict []) = Inl KeyError"
    by (simp add: first_choice_content_def)
  show ?thesis
    by (simp add: generate_recipe_def a k completion_body_content is_RequestException_def)
qed

subsection \<open>C8: a failed token request\<close>

text \<open>
  C8, as the code has it. When \<open>requests.post\<close> to the token endpoint raises, or
  \<open>raise_for_status\<close> raises, or the body is not JSON, or it is JSON without a readable
  \<open>access_token\<close>: the exception leaves \<open>request_access_token\<close> and \<open>get_access_token\<close>, one
  request was sent and no second one, and the held token and expiry are as before. The
  exception is a RequestException in the first three cases and the KeyError or TypeError of
  the lookup in the last.
\<close>

theorem request_access_token_failure:
  assumes "response_json ep = Inl e \<or>
           (\<exists>j. ep = json_returns j \<and> getitem j (ascii ''access_token'') = Inl e)"
  shows "request_access_token g ep = (Inl e, g, [oauth_post (authorization_key g)]) \<and>
         (\<not> truthy (access_token g) \<or> token_expiry g \<le> now \<longrightarrow>
            get_access_token g now ep = (Inl e, g, [oauth_post (authorization_key g)])) \<and>
         (is_RequestException e \<longleftrightarrow>
            ep = post_raises \<or> ep = raise_for_status_raises \<or> ep = json_raises)"
proof -
  have r: "request_access_token g ep = (Inl e, g, [oauth_post (authorization_key g)])"
    using assms by (intro request_access_token_fails) auto
  have k: "\<And>x key err. getitem x key = Inl err \<Longrightarrow> err = KeyError \<or> err = TypeError"
    by (erule getitem.elims) (auto split: option.splits)
  have c: "is_RequestException e \<longleftrightarrow>
            ep = post_raises \<or> ep = raise_for_status_raises \<or> ep = json_raises"
    using assms by (cases ep) (auto simp: is_RequestException_def dest: k)
  from r c show ?thesis by (auto simp: get_access_token_def)
qed

theorem request_access_token_failure_witness:
  "response_json raise_for_status_raises = Inl HTTPError \<and>
   request_access_token with_token raise_for_status_raises = (Inl HTTPError, with_token, [oauth_post None]) \<and>
   token_expiry with_token \<le> 2000000 \<and>
   get_access_token with_token 2000000 raise_for_status_raises =
     (Inl HTTPError, with_token, [oauth_post None]) \<and>
   is_RequestException HTTPError \<and>
   getitem (JDict []) (ascii ''access_token'') = Inl KeyError \<and>
   request_access_token with_token (json_returns (JDict [])) = (Inl KeyError, with_token, [oauth_post None]) \<and>
   \<not> is_RequestException KeyError"
proof -
  have a: "response_json raise_for_status_raises = Inl HTTPError" by simp
  have b: "token_expiry with_token \<le> 2000000" by (simp add: with_token_def)
  have k: "authorization_key with_token = None" by (simp add: with_token_def)
  have c: "getitem (JDict []) (ascii ''access_token'') = Inl KeyError" by simp
  from request_access_token_failure [of raise_for_status_raises HTTPError with_token 2000000] a b
  have 1: "request_access_token with_token raise_for_status_raises = (Inl HTTPError, with_token, [oauth_post None])"
    "get_access_token with_token 2000000 raise_for_status_raises =
     (Inl HTTPError, with_token, [oauth_post None])" "is_RequestException HTTPError"
    by (simp_all add: k)
  from request_access_token_failure [of "json_returns (JDict [])" KeyError with_token 0] c
  have 2: "request_access_token with_token (json_returns (JDict [])) = (Inl KeyError, with_token, [oauth_post None])"
    "\<not> is_RequestException KeyError"
    by (simp_all add: k)
  from a b c 1 2 show ?thesis by simp
qed

text \<open>
  The claim as written fails on a body that has an \<open>access_token\<close> and no \<open>expires_at\<close>:
  a KeyError, which is no RequestException, leaves the method after the token of that
  body was stored, so the held token is the result of the failed exchange.
\<close>

theorem request_access_token_failure_counterexample:
  "request_access_token fresh_client (json_returns (JDict [(ascii ''access_token'', JStr (ascii ''abc''))])) =
     (Inl KeyError, fresh_client\<lparr>access_token := JStr (ascii ''abc'')\<rparr>, [oauth_post None]) \<and>
   access_token fresh_client = JNull"
  by (simp add: request_access_token_def fresh_client_def GigaChatAPI_init_def ascii_def)

subsection \<open>C9: the labels are listed in the order they were stored\<close>



subsection \<open>C10: the label of a callback is not checked\<close>



end
